theory Spec2Isabelle
  imports Main
begin

section \<open>The property search component (properties-search.tsx)\<close>

text \<open>
  The component keeps its state in React hooks and talks to the backend through
  \<open>get\<close>/\<open>post\<close>.  Its handlers are embedded as functions on a record of the
  component state; the backend is a parameter that gives the outcome of each request (the
  same request has the same outcome).  A handler reads the state and the location that are
  current when it runs.  Strings are byte lists: the UTF-8 encoding of the (well-formed)
  JavaScript string.
\<close>

subsection \<open>String operations of the platform\<close>

text \<open>\<open>a || b\<close> on a possibly missing string: \<open>undefined\<close>, \<open>null\<close> and \<open>''\<close> are falsy.\<close>

definition or_else :: "string option \<Rightarrow> string \<Rightarrow> string" where
  "or_else a b = (case a of None \<Rightarrow> b | Some s \<Rightarrow> if s = [] then b else s)"

text \<open>\<open>s.includes(c)\<close> for a one-character needle.\<close>

definition str_includes :: "string \<Rightarrow> char \<Rightarrow> bool" where
  "str_includes s c = (c \<in> set s)"

text \<open>
  \<open>s.split(sep)\<close> where \<open>sep\<close> is one character or a character class: the result is
  never empty, \<open>''.split('#')\<close> is \<open>['']\<close> and \<open>'a#'.split('#')\<close> is \<open>['a', '']\<close>.
\<close>

fun str_split :: "(char \<Rightarrow> bool) \<Rightarrow> string \<Rightarrow> string list" where
  "str_split sep [] = [[]]"
| "str_split sep (c # cs) =
     (if sep c then [] # str_split sep cs
      else (case str_split sep cs of
              [] \<Rightarrow> [[c]]
            | w # ws \<Rightarrow> (c # w) # ws))"

text \<open>\<open>xs.pop()\<close> read for its value: the last element, \<open>undefined\<close> on an empty array.\<close>

definition pop :: "'a list \<Rightarrow> 'a option" where
  "pop xs = (if xs = [] then None else Some (last xs))"

text \<open>
  \<open>s.trim()\<close> removes the white space and line terminators of ECMAScript from both
  ends.  On UTF-8 bytes these are the code points U+0009..U+000D, U+0020, U+00A0,
  U+1680, U+2000..U+200A, U+2028, U+2029, U+202F, U+205F, U+3000 and U+FEFF.
  \<open>ws_prefix\<close> is the length in bytes of such a code point at the head of the bytes
  given (0 when there is none), \<open>ws_suffix\<close> does the same on the reversed bytes.
\<close>

fun ws_prefix :: "nat list \<Rightarrow> nat" where
  "ws_prefix [] = 0"
| "ws_prefix (b # bs) =
     (if (9 \<le> b \<and> b \<le> 13) \<or> b = 32 then 1
      else if b = 0xC2 then (if take 1 bs = [0xA0] then 2 else 0)
      else if b = 0xE1 then (if take 2 bs = [0x9A, 0x80] then 3 else 0)
      else if b = 0xE2 then
        (case bs of
           b2 # b3 # _ \<Rightarrow>
             if b2 = 0x80 \<and> ((0x80 \<le> b3 \<and> b3 \<le> 0x8A) \<or> b3 = 0xA8 \<or> b3 = 0xA9 \<or> b3 = 0xAF) then 3
             else if b2 = 0x81 \<and> b3 = 0x9F then 3
             else 0
         | _ \<Rightarrow> 0)
      else if b = 0xE3 then (if take 2 bs = [0x80, 0x80] then 3 else 0)
      else if b = 0xEF then (if take 2 bs = [0xBB, 0xBF] then 3 else 0)
      else 0)"

fun ws_suffix :: "nat list \<Rightarrow> nat" where
  "ws_suffix [] = 0"
| "ws_suffix (b # bs) =
     (if (9 \<le> b \<and> b \<le> 13) \<or> b = 32 then 1
      else if b = 0xA0 \<and> take 1 bs = [0xC2] then 2
      else (case bs of
              b2 # b1 # _ \<Rightarrow> (if ws_prefix [b1, b2, b] = 3 then 3 else 0)
            | _ \<Rightarrow> 0))"

function trimStart :: "string \<Rightarrow> string" where
  "trimStart s =
     (if ws_prefix (map of_char s) = 0 then s
      else trimStart (drop (ws_prefix (map of_char s)) s))"
  by pat_completeness auto
termination
proof (relation "measure length")
  show "wf (measure length)" by simp
next
  fix s :: string
  assume "ws_prefix (map of_char s) \<noteq> 0"
  then have "s \<noteq> []" by auto
  with \<open>ws_prefix (map of_char s) \<noteq> 0\<close>
  show "(drop (ws_prefix (map of_char s)) s, s) \<in> measure length"
    by (cases s) auto
qed

function trimEndRev :: "string \<Rightarrow> string" where
  "trimEndRev s =
     (if ws_suffix (map of_char s) = 0 then s
      else trimEndRev (drop (ws_suffix (map of_char s)) s))"
  by pat_completeness auto
termination
proof (relation "measure length")
  show "wf (measure length)" by simp
next
  fix s :: string
  assume "ws_suffix (map of_char s) \<noteq> 0"
  then have "s \<noteq> []" by auto
  with \<open>ws_suffix (map of_char s) \<noteq> 0\<close>
  show "(drop (ws_suffix (map of_char s)) s, s) \<in> measure length"
    by (cases s) auto
qed

definition str_trim :: "string \<Rightarrow> string" where
  "str_trim s = rev (trimEndRev (rev (trimStart s)))"

subsection \<open>URLSearchParams and the router\<close>

text \<open>
  The query string follows the \<open>application/x-www-form-urlencoded\<close> format of the URL
  standard.  The serializer leaves \<open>* - . _\<close>, digits and ASCII letters as they are,
  writes a space as \<open>+\<close> and every other byte as \<open>%XX\<close>.
\<close>

type_synonym params = "(string \<times> string) list"

definition hex_digit :: "nat \<Rightarrow> char" where
  "hex_digit n = ''0123456789ABCDEF'' ! n"

definition hex_value :: "char \<Rightarrow> nat option" where
  "hex_value c =
     (let n = (of_char c :: nat) in
      if 48 \<le> n \<and> n \<le> 57 then Some (n - 48)
      else if 65 \<le> n \<and> n \<le> 70 then Some (n - 55)
      else if 97 \<le> n \<and> n \<le> 102 then Some (n - 87)
      else None)"

definition unreserved :: "char \<Rightarrow> bool" where
  "unreserved c =
     (let n = (of_char c :: nat) in
      n = 0x2A \<or> n = 0x2D \<or> n = 0x2E \<or> (0x30 \<le> n \<and> n \<le> 0x39) \<or>
      (0x41 \<le> n \<and> n \<le> 0x5A) \<or> n = 0x5F \<or> (0x61 \<le> n \<and> n \<le> 0x7A))"

definition encode_byte :: "char \<Rightarrow> string" where
  "encode_byte c =
     (if c = CHR '' '' then ''+''
      else if unreserved c then [c]
      else [CHR ''%'', hex_digit (of_char c div 16), hex_digit (of_char c mod 16)])"

definition urlencode :: "string \<Rightarrow> string" where
  "urlencode s = concat (map encode_byte s)"

fun URLSearchParams_toString :: "params \<Rightarrow> string" where
  "URLSearchParams_toString [] = []"
| "URLSearchParams_toString [(n, v)] = urlencode n @ ''='' @ urlencode v"
| "URLSearchParams_toString ((n, v) # p # ps) =
     urlencode n @ ''='' @ urlencode v @ ''&'' @ URLSearchParams_toString (p # ps)"

fun percent_decode :: "string \<Rightarrow> string" where
  "percent_decode (c # h1 # h2 # cs) =
     (if c = CHR ''%'' then
        (case (hex_value h1, hex_value h2) of
           (Some a, Some b) \<Rightarrow> char_of (16 * a + b) # percent_decode cs
         | _ \<Rightarrow> c # percent_decode (h1 # h2 # cs))
      else c # percent_decode (h1 # h2 # cs))"
| "percent_decode (c # cs) = c # percent_decode cs"
| "percent_decode [] = []"

definition urldecode :: "string \<Rightarrow> string" where
  "urldecode s = percent_decode (map (\<lambda>c. if c = CHR ''+'' then CHR '' '' else c) s)"

definition parse_pair :: "string \<Rightarrow> string \<times> string" where
  "parse_pair s =
     (urldecode (takeWhile (\<lambda>c. c \<noteq> CHR ''='') s),
      urldecode (drop 1 (dropWhile (\<lambda>c. c \<noteq> CHR ''='') s)))"

text \<open>\<open>new URLSearchParams(init)\<close>: a leading \<open>?\<close> is dropped, empty pieces are skipped.\<close>

definition URLSearchParams :: "string \<Rightarrow> params" where
  "URLSearchParams init =
     map parse_pair
       (filter (\<lambda>piece. piece \<noteq> [])
          (str_split (\<lambda>c. c = CHR ''&'') (if take 1 init = ''?'' then drop 1 init else init)))"

text \<open>\<open>params.get(name)\<close>: the value of the first pair with that name, or \<open>null\<close>.\<close>

definition URLSearchParams_get :: "params \<Rightarrow> string \<Rightarrow> string option" where
  "URLSearchParams_get ps name = map_of ps name"

text \<open>\<open>params.set(name, value)\<close>: the first pair of that name is overwritten and the
  others are removed; a new name is appended.\<close>

fun URLSearchParams_set :: "params \<Rightarrow> string \<Rightarrow> string \<Rightarrow> params" where
  "URLSearchParams_set [] name v = [(name, v)]"
| "URLSearchParams_set ((n, x) # ps) name v =
     (if n = name then (name, v) # filter (\<lambda>p. fst p \<noteq> name) ps
      else (n, x) # URLSearchParams_set ps name v)"

text \<open>The router's \<open>parsePath\<close>: the hash is cut off first, then the search part, which keeps
  its \<open>?\<close>, then what is left is the path name.\<close>

definition parsePath_search :: "string \<Rightarrow> string" where
  "parsePath_search path = dropWhile (\<lambda>c. c \<noteq> CHR ''?'') (takeWhile (\<lambda>c. c \<noteq> CHR ''#'') path)"

definition parsePath_pathname :: "string \<Rightarrow> string" where
  "parsePath_pathname path = takeWhile (\<lambda>c. c \<noteq> CHR ''?'') (takeWhile (\<lambda>c. c \<noteq> CHR ''#'') path)"

text \<open>\<open>encodeURIComponent\<close>: ASCII letters, digits and \<open>- _ . ! ~ * ' ( )\<close> stay, every other
  byte becomes \<open>%XX\<close>.\<close>

definition uri_unescaped :: "char \<Rightarrow> bool" where
  "uri_unescaped c =
     (let n = (of_char c :: nat) in
      (0x30 \<le> n \<and> n \<le> 0x39) \<or> (0x41 \<le> n \<and> n \<le> 0x5A) \<or> (0x61 \<le> n \<and> n \<le> 0x7A) \<or>
      n = 0x2D \<or> n = 0x5F \<or> n = 0x2E \<or> n = 0x21 \<or> n = 0x7E \<or> n = 0x2A \<or> n = 0x27 \<or>
      n = 0x28 \<or> n = 0x29)"

definition encodeURIComponent :: "string \<Rightarrow> string" where
  "encodeURIComponent s =
     concat (map (\<lambda>c. if uri_unescaped c then [c]
                      else [CHR ''%'', hex_digit (of_char c div 16), hex_digit (of_char c mod 16)]) s)"

subsection \<open>Data\<close>

datatype ItemType = Property

record PropertyItem =
  item_value :: string
  item_label :: string
  item_type :: ItemType

datatype Direction = Outgoing | Incoming | Predicate

datatype DisplayType = ResourceDisplay | PropertyDisplay | LiteralDisplay

record Neighbor =
  direction :: Direction
  predicate :: string
  display :: string
  displayType :: DisplayType
  stepIri :: "string option"
  stepIsResource :: "bool option"

record SemanticLink =
  link_id :: string
  entity_id :: string
  entity_type :: string
  iri :: string

record EnrichedSemanticLink = SemanticLink +
  entity_name :: "string option"

text \<open>What the component reads of a contract (\<open>data?.name\<close>, \<open>data?.info?.title\<close>).\<close>

record ContractInfo =
  title :: "string option"

record Contract =
  contract_id :: string
  name :: "string option"
  info :: "ContractInfo option"

text \<open>The body of \<open>POST /api/semantic-links/\<close>.\<close>

record LinkBody =
  body_entity_id :: string
  body_entity_type :: string
  body_iri :: string

record Toast =
  toast_title :: string
  description :: string
  variant :: "string option"

text \<open>The argument of \<open>updateUrl\<close>: \<open>Partial<{ query: string; iri: string }>\<close>, an omitted
  field is \<open>None\<close>.\<close>

record Updates =
  u_query :: "string option"
  u_iri :: "string option"

subsection \<open>The backend\<close>

text \<open>
  A request either rejects (the \<open>await\<close> throws an error with the message given) or
  resolves to \<open>{ data, error }\<close>, either of which may be missing.  \<open>Env\<close> holds what the
  component gets from its hooks: \<open>get\<close> at each result type it is used at and \<open>post\<close> from
  \<open>useApi\<close>, and \<open>t\<close> from \<open>useTranslation\<close>.
\<close>

datatype 'a Response = Rejected string | Resolved "'a option" "string option"

datatype Request = GET string | POST string LinkBody

record Env =
  get_PropertyItems :: "string \<Rightarrow> PropertyItem list Response"
  get_Neighbors :: "string \<Rightarrow> Neighbor list Response"
  get_SemanticLinks :: "string \<Rightarrow> SemanticLink list Response"
  get_Contract :: "string \<Rightarrow> Contract Response"
  post :: "string \<Rightarrow> LinkBody \<Rightarrow> unit Response"
  translate :: "string \<Rightarrow> string"

text \<open>\<open>res.data || []\<close>\<close>

definition data_or_empty :: "'a list option \<Rightarrow> 'a list" where
  "data_or_empty d = (case d of None \<Rightarrow> [] | Some xs \<Rightarrow> xs)"

subsection \<open>The component state\<close>

text \<open>
  One field for each \<open>useState\<close> of the component, and what its handlers reach outside
  it: the parameters of the current location (\<open>new URLSearchParams(location.search)\<close>), the
  targets passed to \<open>navigate\<close> (always with \<open>replace: true\<close>), the requests issued and the
  toasts shown, each in order.
\<close>

record World =
  propertySearchQuery :: string
  propertySearchResults :: "PropertyItem list"
  isPropertyDropdownOpen :: bool
  selectedProperty :: "PropertyItem option"
  propertyIri :: string
  propertyLabel :: string
  propertyNeighbors :: "Neighbor list"
  semanticLinks :: "EnrichedSemanticLink list"
  assignDialogOpen :: bool
  assignTargetType :: string
  contracts :: "Contract list"
  selectedContractId :: string
  selectedSchemaName :: string
  selectedPropertyEntityId :: string
  ucAssetDialogOpen :: bool
  selectedContractDetail :: "Contract option"
  location_params :: params
  navigations :: "string list"
  requests :: "Request list"
  toasts :: "Toast list"

definition navigate :: "string \<Rightarrow> World \<Rightarrow> World" where
  "navigate target w =
     w\<lparr>location_params := URLSearchParams (parsePath_search target),
       navigations := navigations w @ [target]\<rparr>"

definition issue :: "Request \<Rightarrow> World \<Rightarrow> World" where
  "issue r w = w\<lparr>requests := requests w @ [r]\<rparr>"


subsection \<open>updateUrl\<close>

definition newUrl :: "params \<Rightarrow> Updates \<Rightarrow> string" where
  "newUrl currentParams updates =
     (let currentQuery = (case u_query updates of
                            Some q \<Rightarrow> q
                          | None \<Rightarrow> or_else (URLSearchParams_get currentParams ''query'') []);
          currentIri = (case u_iri updates of
                          Some i \<Rightarrow> i
                        | None \<Rightarrow> or_else (URLSearchParams_get currentParams ''iri'') []);
          params0 = [];
          params1 = (if currentQuery \<noteq> [] then URLSearchParams_set params0 ''query'' currentQuery
                     else params0);
          params2 = (if currentIri \<noteq> [] then URLSearchParams_set params1 ''iri'' currentIri
                     else params1);
          queryString = URLSearchParams_toString params2
      in if queryString \<noteq> [] then ''/search/properties?'' @ queryString
         else ''/search/properties'')"

definition updateUrl :: "Updates \<Rightarrow> World \<Rightarrow> World" where
  "updateUrl updates w = navigate (newUrl (location_params w) updates) w"

subsection \<open>enrichSemanticLinksWithNames\<close>

text \<open>Reading position \<open>i\<close> of an array: \<open>undefined\<close> past its end, as array destructuring
  gives it.\<close>

definition nth_opt :: "'a list \<Rightarrow> nat \<Rightarrow> 'a option" where
  "nth_opt xs i = (if i < length xs then Some (xs ! i) else None)"

text \<open>\<open>{ ...link, entity_name: n }\<close>\<close>

definition with_name :: "SemanticLink \<Rightarrow> string \<Rightarrow> EnrichedSemanticLink" where
  "with_name link n = SemanticLink.extend link \<lparr>entity_name = Some n\<rparr>"

text \<open>\<open>data?.name || data?.info?.title || fallback\<close>\<close>

definition contractTitle :: "Contract option \<Rightarrow> string \<Rightarrow> string" where
  "contractTitle d fallback =
     or_else (case d of None \<Rightarrow> None | Some c \<Rightarrow> name c)
       (or_else (case d of None \<Rightarrow> None
                 | Some c \<Rightarrow> (case info c of None \<Rightarrow> None | Some i \<Rightarrow> title i))
          fallback)"

text \<open>The body of the loop for one link: the element pushed and the requests issued.\<close>

definition enrich_link :: "Env \<Rightarrow> SemanticLink \<Rightarrow> EnrichedSemanticLink \<times> Request list" where
  "enrich_link env link =
     (if entity_type link = ''data_contract_property'' then
        (let parts = str_split (\<lambda>c. c = CHR ''#'') (entity_id link);
             contractId = nth_opt parts 0;
             schemaName = nth_opt parts 1;
             propName = nth_opt parts 2
         in if or_else contractId [] \<noteq> [] then
              (let url = ''/api/data-contracts/'' @ or_else contractId []
               in case get_Contract env url of
                    Rejected m \<Rightarrow> (with_name link (entity_id link), [GET url])
                  | Resolved d e \<Rightarrow>
                      (with_name link
                         (str_trim (contractTitle d (or_else contractId []) @ ''#'' @
                                    or_else schemaName [] @ ''.'' @ or_else propName [])),
                       [GET url]))
            else (with_name link (entity_id link), []))
      else if entity_type link = ''uc_column'' then (with_name link (entity_id link), [])
      else if entity_type link = ''data_contract'' then
        (let url = ''/api/data-contracts/'' @ entity_id link
         in case get_Contract env url of
              Rejected m \<Rightarrow> (with_name link (entity_id link), [GET url])
            | Resolved d e \<Rightarrow> (with_name link (contractTitle d (entity_id link)), [GET url]))
      else (with_name link (entity_id link), []))"

fun enrich_loop ::
  "Env \<Rightarrow> SemanticLink list \<Rightarrow> EnrichedSemanticLink list \<times> Request list
     \<Rightarrow> EnrichedSemanticLink list \<times> Request list" where
  "enrich_loop env [] acc = acc"
| "enrich_loop env (link # links) (result, issued) =
     enrich_loop env links (result @ [fst (enrich_link env link)], issued @ snd (enrich_link env link))"

definition enrichSemanticLinksWithNames ::
  "Env \<Rightarrow> SemanticLink list \<Rightarrow> EnrichedSemanticLink list \<times> Request list" where
  "enrichSemanticLinksWithNames env links = enrich_loop env links ([], [])"

subsection \<open>selectProperty\<close>

text \<open>
  The label shown for a property.  \<open>split\<close> never returns an empty array, so the \<open>pop()!\<close>
  of the source always has a last element to give; the \<open>None\<close> branch is never taken.
\<close>

definition displayLabel :: "PropertyItem \<Rightarrow> string" where
  "displayLabel property =
     (if item_label property = [] \<or> str_trim (item_label property) = item_value property then
        (if str_includes (item_value property) CHR ''#'' then
           (case pop (str_split (\<lambda>c. c = CHR ''#'') (item_value property)) of
              Some segment \<Rightarrow> segment
            | None \<Rightarrow> [])
         else or_else (pop (str_split (\<lambda>c. c = CHR ''/'') (item_value property)))
                (item_value property))
      else item_label property)"

text \<open>The addresses of the requests, as the template literals of the source build them.\<close>

definition properties_url :: "string \<Rightarrow> string \<Rightarrow> string" where
  "properties_url q limit =
     ''/api/semantic-models/properties?q='' @ encodeURIComponent q @ ''&limit='' @ limit"

definition neighbors_url :: "PropertyItem \<Rightarrow> string" where
  "neighbors_url property =
     ''/api/semantic-models/neighbors?iri='' @ encodeURIComponent (item_value property) @ ''&limit=200''"

definition links_url :: "PropertyItem \<Rightarrow> string" where
  "links_url property = ''/api/semantic-links/iri/'' @ encodeURIComponent (item_value property)"

text \<open>
  \<open>selectProperty\<close> is an async function: it runs to its first \<open>await\<close>, and each
  \<open>await\<close> gives other handlers the chance to run before it goes on.  It is split at
  these points: \<open>selectProperty_begin\<close> runs up to the request for the neighbors,
  \<open>selectProperty_neighbors\<close> from its outcome up to the request for the links, and
  \<open>selectProperty_links\<close> from that outcome to the end (the enrichment writes no state
  before its last line, so it is kept in one piece).  \<open>selectProperty\<close> is the call that
  nothing interrupts.
\<close>

definition selectProperty_begin :: "PropertyItem \<Rightarrow> World \<Rightarrow> World" where
  "selectProperty_begin property w =
     issue (GET (neighbors_url property))
       (updateUrl \<lparr>u_query = None, u_iri = Some (item_value property)\<rparr>
          (w\<lparr>selectedProperty := Some property,
             propertyIri := item_value property,
             propertyLabel := displayLabel property,
             propertySearchQuery := displayLabel property @ '' - '' @ item_value property,
             isPropertyDropdownOpen := False\<rparr>))"

definition selectProperty_neighbors :: "Env \<Rightarrow> PropertyItem \<Rightarrow> World \<Rightarrow> World" where
  "selectProperty_neighbors env property w =
     issue (GET (links_url property))
       (case get_Neighbors env (neighbors_url property) of
          Resolved d e \<Rightarrow> w\<lparr>propertyNeighbors := data_or_empty d\<rparr>
        | Rejected m \<Rightarrow> w\<lparr>propertyNeighbors := []\<rparr>)"

definition selectProperty_links :: "Env \<Rightarrow> PropertyItem \<Rightarrow> World \<Rightarrow> World" where
  "selectProperty_links env property w =
     (case get_SemanticLinks env (links_url property) of
        Resolved d e \<Rightarrow>
          (let enriched = enrichSemanticLinksWithNames env (data_or_empty d)
           in w\<lparr>semanticLinks := fst enriched, requests := requests w @ snd enriched\<rparr>)
      | Rejected m \<Rightarrow> w\<lparr>semanticLinks := []\<rparr>)"

definition selectProperty :: "Env \<Rightarrow> PropertyItem \<Rightarrow> World \<Rightarrow> World" where
  "selectProperty env property w =
     selectProperty_links env property
       (selectProperty_neighbors env property (selectProperty_begin property w))"

subsection \<open>The effect on the location\<close>

definition loadPropertyFromIri :: "Env \<Rightarrow> string \<Rightarrow> World \<Rightarrow> World" where
  "loadPropertyFromIri env urlIri w =
     (let url = properties_url urlIri ''10'';
          w1 = issue (GET url) w
      in case get_PropertyItems env url of
           Resolved d e \<Rightarrow>
             (case find (\<lambda>p. item_value p = urlIri) (data_or_empty d) of
                Some match \<Rightarrow> selectProperty env match w1
              | None \<Rightarrow>
                  selectProperty env
                    \<lparr>item_value = urlIri,
                     item_label = or_else (pop (str_split (\<lambda>c. c = CHR ''/'' \<or> c = CHR ''#'') urlIri)) urlIri,
                     item_type = Property\<rparr> w1)
         | Rejected m \<Rightarrow> w1)"

text \<open>The effect that runs when \<open>location.search\<close> changes; \<open>initialQuery\<close> is the component's
  property of that name.\<close>

definition locationEffect :: "Env \<Rightarrow> string \<Rightarrow> World \<Rightarrow> World" where
  "locationEffect env initialQuery w =
     (let urlQuery = URLSearchParams_get (location_params w) ''query'';
          urlIri = URLSearchParams_get (location_params w) ''iri'';
          w1 = (if or_else urlQuery [] \<noteq> [] \<and> or_else urlQuery [] \<noteq> initialQuery
                then w\<lparr>propertySearchQuery := or_else urlQuery []\<rparr> else w)
      in if or_else urlIri [] \<noteq> [] then loadPropertyFromIri env (or_else urlIri []) w1 else w1)"

subsection \<open>The debounced search\<close>

text \<open>The callback that the timer runs 250 ms after the last change of the search text.\<close>

definition searchProperties :: "Env \<Rightarrow> World \<Rightarrow> World" where
  "searchProperties env w =
     (if str_trim (propertySearchQuery w) = [] then
        updateUrl \<lparr>u_query = Some [], u_iri = None\<rparr>
          (w\<lparr>propertySearchResults := [], isPropertyDropdownOpen := False\<rparr>)
      else
        (let url = properties_url (propertySearchQuery w) ''50'';
             w1 = issue (GET url) w
         in case get_PropertyItems env url of
              Resolved d e \<Rightarrow>
                updateUrl \<lparr>u_query = Some (propertySearchQuery w), u_iri = None\<rparr>
                  (w1\<lparr>propertySearchResults := data_or_empty d,
                      isPropertyDropdownOpen := (length (data_or_empty d) > 0)\<rparr>)
            | Rejected m \<Rightarrow>
                w1\<lparr>propertySearchResults := [], isPropertyDropdownOpen := False\<rparr>))"

definition clearSearch :: "World \<Rightarrow> World" where
  "clearSearch w =
     updateUrl \<lparr>u_query = Some [], u_iri = Some []\<rparr>
       (w\<lparr>propertySearchQuery := [],
          selectedProperty := None,
          propertyIri := [],
          propertyLabel := [],
          propertyNeighbors := [],
          semanticLinks := [],
          isPropertyDropdownOpen := False\<rparr>)"

subsection \<open>The assignment dialog\<close>

definition handleAssignTargetTypeChange :: "string \<Rightarrow> World \<Rightarrow> World" where
  "handleAssignTargetTypeChange v w =
     w\<lparr>assignTargetType := v,
       selectedContractId := [],
       selectedSchemaName := [],
       selectedPropertyEntityId := []\<rparr>"

text \<open>The \<open>onValueChange\<close> handlers of the contract, schema and property selectors.\<close>

definition contract_onValueChange :: "string \<Rightarrow> World \<Rightarrow> World" where
  "contract_onValueChange v w =
     w\<lparr>selectedContractId := v, selectedSchemaName := [], selectedPropertyEntityId := []\<rparr>"

definition schema_onValueChange :: "string \<Rightarrow> World \<Rightarrow> World" where
  "schema_onValueChange v w = w\<lparr>selectedSchemaName := v, selectedPropertyEntityId := []\<rparr>"

definition property_onValueChange :: "string \<Rightarrow> World \<Rightarrow> World" where
  "property_onValueChange v w = w\<lparr>selectedPropertyEntityId := v\<rparr>"






subsection \<open>Calls of selectProperty in flight\<close>





subsection \<open>Reading the location, and data for examples\<close>

text \<open>\<open>params.get(k) || ''\<close>, the way \<open>updateUrl\<close> reads a parameter.\<close>

definition param_value :: "params \<Rightarrow> string \<Rightarrow> string" where
  "param_value ps k = or_else (URLSearchParams_get ps k) []"

text \<open>The parameters that \<open>updateUrl\<close> sets for a query \<open>q\<close> and an IRI \<open>i\<close>: \<open>query\<close> first,
  each one only when its value is not empty.\<close>

definition merged :: "string \<Rightarrow> string \<Rightarrow> params" where
  "merged q i = (if q = [] then [] else [(''query'', q)]) @ (if i = [] then [] else [(''iri'', i)])"

text \<open>
  \<open>enrichSemanticLinksWithNames\<close> as section 4.4 of the specification words it, to compare
  the source with: a contract property's identifier is split at \<open>#\<close>, the contract is
  fetched and the name is \<open><contract title>#<schema>.<property>\<close>; a contract's name is its
  title; every other type keeps the identifier; a failed fetch gives the identifier.
\<close>

definition spec_entity_name :: "Env \<Rightarrow> SemanticLink \<Rightarrow> string" where
  "spec_entity_name env link =
     (if entity_type link = ''data_contract_property'' then
        (let parts = str_split (\<lambda>c. c = CHR ''#'') (entity_id link);
             contractId = or_else (nth_opt parts 0) [];
             schemaName = or_else (nth_opt parts 1) [];
             propName = or_else (nth_opt parts 2) []
         in case get_Contract env (''/api/data-contracts/'' @ contractId) of
              Rejected m \<Rightarrow> entity_id link
            | Resolved d e \<Rightarrow> contractTitle d contractId @ ''#'' @ schemaName @ ''.'' @ propName)
      else if entity_type link = ''data_contract'' then
        (case get_Contract env (''/api/data-contracts/'' @ entity_id link) of
           Rejected m \<Rightarrow> entity_id link
         | Resolved d e \<Rightarrow> contractTitle d (entity_id link))
      else entity_id link)"

text \<open>The component as it is mounted at \<open>/search/properties\<close> with its default properties.\<close>

definition world0 :: World where
  "world0 =
     \<lparr>propertySearchQuery = [], propertySearchResults = [], isPropertyDropdownOpen = False,
      selectedProperty = None, propertyIri = [], propertyLabel = [], propertyNeighbors = [],
      semanticLinks = [], assignDialogOpen = False, assignTargetType = [], contracts = [],
      selectedContractId = [], selectedSchemaName = [], selectedPropertyEntityId = [],
      ucAssetDialogOpen = False, selectedContractDetail = None, location_params = [],
      navigations = [], requests = [], toasts = []\<rparr>"

text \<open>Two properties, a fact about each, and a link of the first one.\<close>

definition customerId :: PropertyItem where
  "customerId =
     \<lparr>item_value = ''https://ex.org/onto#CustomerId'', item_label = ''CustomerId'',
      item_type = Property\<rparr>"

definition orderId :: PropertyItem where
  "orderId =
     \<lparr>item_value = ''https://ex.org/onto/orderId'', item_label = [], item_type = Property\<rparr>"

definition fact_of :: "string \<Rightarrow> Neighbor" where
  "fact_of what =
     \<lparr>direction = Outgoing, predicate = ''http://www.w3.org/2000/01/rdf-schema#comment'',
      display = what, displayType = LiteralDisplay, stepIri = None, stepIsResource = None\<rparr>"

definition link_of :: "string \<Rightarrow> string \<Rightarrow> string \<Rightarrow> SemanticLink" where
  "link_of i e ty = \<lparr>link_id = i, entity_id = e, entity_type = ty, iri = item_value customerId\<rparr>"

text \<open>
  A backend for the examples.  It knows the two properties, finds the first one under
  \<open>customer\<close> and under its own IRI, fails every search for \<open>down\<close>, has the contract
  \<open>c1\<close> (named with a leading space) and a list of contracts at the bare address, and
  accepts every new link but those to \<open>c1#orders#total\<close>.
\<close>

definition env1 :: Env where
  "env1 =
     \<lparr>get_PropertyItems = (\<lambda>url.
        if url = properties_url ''customer'' ''50'' \<or>
           url = properties_url (item_value customerId) ''10''
        then Resolved (Some [orderId, customerId]) None
        else if url = properties_url ''down'' ''50'' \<or> url = properties_url ''down'' ''10''
        then Rejected ''Network Error''
        else Resolved (Some []) None),
      get_Neighbors = (\<lambda>url.
        if url = neighbors_url customerId then Resolved (Some [fact_of ''customer'']) None
        else if url = neighbors_url orderId then Resolved (Some [fact_of ''order'']) None
        else Resolved None None),
      get_SemanticLinks = (\<lambda>url.
        if url = links_url customerId
        then Resolved (Some [link_of ''1'' ''main.sales.orders.customer_id'' ''uc_column'']) None
        else Resolved (Some []) None),
      get_Contract = (\<lambda>url.
        if url = ''/api/data-contracts/c1''
        then Resolved (Some \<lparr>contract_id = ''c1'', name = Some '' Sales'', info = None\<rparr>) None
        else if url = ''/api/data-contracts/''
        then Resolved (Some \<lparr>contract_id = [], name = None,
                              info = Some \<lparr>title = Some ''All''\<rparr>\<rparr>) None
        else Rejected ''Not Found''),
      post = (\<lambda>url body.
        if body_entity_id body = ''c1#orders#total'' then Resolved None (Some ''Link exists'')
        else Resolved None None),
      translate = (\<lambda>key. key)\<rparr>"



section \<open>Properties\<close>

subsection \<open>The query string is read back as it was written\<close>

declare trimStart.simps [simp del] trimEndRev.simps [simp del]

lemma hex_tab: "\<forall>n\<in>{..<16}. hex_value (hex_digit n) = Some n \<and> hex_digit n \<notin> set ''&=#?+%''"
  by code_simp

lemma hex_value_hex_digit: "n < 16 \<Longrightarrow> hex_value (hex_digit n) = Some n"
  using hex_tab by blast

lemma hex_digit_plain: "n < 16 \<Longrightarrow> hex_digit n \<notin> set ''&=#?+%''"
  using hex_tab by blast

lemma unreserved_plain: "unreserved c \<Longrightarrow> c \<notin> set ''&=#?%+''"
  by (auto simp: unreserved_def)

lemma encode_byte_plain: "x \<in> set (encode_byte c) \<Longrightarrow> x \<notin> set ''&=#?''"
proof -
  assume x: "x \<in> set (encode_byte c)"
  have d: "(of_char c :: nat) div 16 < 16" and m: "(of_char c :: nat) mod 16 < 16"
    using nat_of_char_less_256 [of c] by presburger+
  show ?thesis
  proof (cases "c = CHR '' ''")
    case True
    with x show ?thesis by (simp add: encode_byte_def)
  next
    case sp: False
    show ?thesis
    proof (cases "unreserved c")
      case True
      with sp x unreserved_plain [of c] show ?thesis by (simp add: encode_byte_def)
    next
      case False
      with sp x hex_digit_plain [OF d] hex_digit_plain [OF m] show ?thesis
        by (auto simp: encode_byte_def)
    qed
  qed
qed

lemma urlencode_plain: "x \<in> set (urlencode s) \<Longrightarrow> x \<notin> set ''&=#?''"
  unfolding urlencode_def using encode_byte_plain by (induction s) auto

lemma percent_decode_other: "c \<noteq> CHR ''%'' \<Longrightarrow> percent_decode (c # cs) = c # percent_decode cs"
  by (cases "(c # cs)" rule: percent_decode.cases) auto

lemma percent_decode_hex:
  "hex_value h1 = Some a \<Longrightarrow> hex_value h2 = Some b \<Longrightarrow>
   percent_decode (CHR ''%'' # h1 # h2 # cs) = char_of (16 * a + b) # percent_decode cs"
  by simp

lemma urldecode_encode_byte: "urldecode (encode_byte c @ r) = c # urldecode r"
proof -
  have d: "(of_char c :: nat) div 16 < 16" and m: "(of_char c :: nat) mod 16 < 16"
    using nat_of_char_less_256 [of c] by presburger+
  show ?thesis
  proof (cases "c = CHR '' ''")
    case True
    then show ?thesis by (simp add: encode_byte_def urldecode_def percent_decode_other)
  next
    case sp: False
    show ?thesis
    proof (cases "unreserved c")
      case True
      with unreserved_plain [of c] have "c \<noteq> CHR ''%''" "c \<noteq> CHR ''+''" by auto
      with sp True show ?thesis by (simp add: encode_byte_def urldecode_def percent_decode_other)
    next
      case False
      have p: "hex_digit (of_char c div 16) \<noteq> CHR ''+''" "hex_digit (of_char c mod 16) \<noteq> CHR ''+''"
        using hex_digit_plain [OF d] hex_digit_plain [OF m] by auto
      have "char_of (16 * ((of_char c :: nat) div 16) + of_char c mod 16) = c" by simp
      with sp False p show ?thesis
        by (simp add: encode_byte_def urldecode_def hex_value_hex_digit [OF d] hex_value_hex_digit [OF m])
    qed
  qed
qed

lemma urldecode_urlencode: "urldecode (urlencode s) = s"
proof (induction s)
  case Nil
  show ?case by (simp add: urlencode_def urldecode_def)
next
  case (Cons c s)
  have "urlencode (c # s) = encode_byte c @ urlencode s" by (simp add: urlencode_def)
  with Cons show ?case by (simp add: urldecode_encode_byte)
qed

lemma str_split_plain: "\<forall>c\<in>set a. \<not> sep c \<Longrightarrow> str_split sep a = [a]"
  by (induction a) auto

lemma str_split_append:
  "\<forall>c\<in>set a. \<not> sep c \<Longrightarrow> sep d \<Longrightarrow> str_split sep (a @ d # b) = a # str_split sep b"
  by (induction a) auto

lemma parse_pair_encoded: "parse_pair (urlencode n @ CHR ''='' # urlencode v) = (n, v)"
proof -
  have "\<forall>c\<in>set (urlencode n). c \<noteq> CHR ''=''" using urlencode_plain [of _ n] by auto
  then have "takeWhile (\<lambda>c. c \<noteq> CHR ''='') (urlencode n @ CHR ''='' # urlencode v) = urlencode n"
    and "dropWhile (\<lambda>c. c \<noteq> CHR ''='') (urlencode n @ CHR ''='' # urlencode v) = CHR ''='' # urlencode v"
    by (simp_all add: takeWhile_append2 dropWhile_append2)
  then show ?thesis by (simp add: parse_pair_def urldecode_urlencode)
qed

lemma parse_toString:
  "map parse_pair (filter (\<lambda>piece. piece \<noteq> []) (str_split (\<lambda>c. c = CHR ''&'') (URLSearchParams_toString ps))) = ps"
proof (induction ps rule: URLSearchParams_toString.induct)
  case 1
  show ?case by simp
next
  case (2 n v)
  have "\<forall>c\<in>set (urlencode n @ CHR ''='' # urlencode v). \<not> c = CHR ''&''"
    using urlencode_plain [of _ n] urlencode_plain [of _ v] by auto
  then have "str_split (\<lambda>c. c = CHR ''&'') (urlencode n @ CHR ''='' # urlencode v) = [urlencode n @ CHR ''='' # urlencode v]"
    by (rule str_split_plain)
  then show ?case by (simp add: parse_pair_encoded)
next
  case (3 n v p ps)
  have "\<forall>c\<in>set (urlencode n @ CHR ''='' # urlencode v). \<not> c = CHR ''&''"
    using urlencode_plain [of _ n] urlencode_plain [of _ v] by auto
  then have "str_split (\<lambda>c. c = CHR ''&'') ((urlencode n @ CHR ''='' # urlencode v) @ CHR ''&'' # URLSearchParams_toString (p # ps))
     = (urlencode n @ CHR ''='' # urlencode v) # str_split (\<lambda>c. c = CHR ''&'') (URLSearchParams_toString (p # ps))"
    by (rule str_split_append) simp
  with 3 show ?case by (simp add: parse_pair_encoded)
qed

lemma toString_plain: "x \<in> set (URLSearchParams_toString ps) \<Longrightarrow> x \<noteq> CHR ''#'' \<and> x \<noteq> CHR ''?''"
  using urlencode_plain by (induction ps rule: URLSearchParams_toString.induct) auto

lemma URLSearchParams_toString_roundtrip:
  "URLSearchParams (CHR ''?'' # URLSearchParams_toString ps) = ps"
  by (simp add: URLSearchParams_def parse_toString)

lemma URLSearchParams_empty: "URLSearchParams [] = []"
  by (simp add: URLSearchParams_def)

lemma parsePath_search_target:
  "parsePath_search (''/search/properties?'' @ URLSearchParams_toString ps) = CHR ''?'' # URLSearchParams_toString ps"
proof -
  have "\<forall>x\<in>set (URLSearchParams_toString ps). x \<noteq> CHR ''#''" using toString_plain by blast
  then have "takeWhile (\<lambda>c. c \<noteq> CHR ''#'') (URLSearchParams_toString ps) = URLSearchParams_toString ps"
    by simp
  then show ?thesis by (simp add: parsePath_search_def)
qed


lemma toString_empty_iff: "URLSearchParams_toString ps = [] \<longleftrightarrow> ps = []"
  by (induction ps rule: URLSearchParams_toString.induct) auto

lemma newUrl_eq:
  "newUrl cur upd =
     (let q = (case u_query upd of None \<Rightarrow> param_value cur ''query'' | Some v \<Rightarrow> v);
          i = (case u_iri upd of None \<Rightarrow> param_value cur ''iri'' | Some v \<Rightarrow> v)
      in if merged q i = [] then ''/search/properties''
         else ''/search/properties?'' @ URLSearchParams_toString (merged q i))"
  by (auto simp: newUrl_def merged_def param_value_def Let_def toString_empty_iff split: option.splits)

lemma parse_newUrl:
  "URLSearchParams (parsePath_search (newUrl cur upd)) =
     merged (case u_query upd of None \<Rightarrow> param_value cur ''query'' | Some v \<Rightarrow> v)
            (case u_iri upd of None \<Rightarrow> param_value cur ''iri'' | Some v \<Rightarrow> v)"
proof -
  have bare: "URLSearchParams (parsePath_search ''/search/properties'') = []"
    by (simp add: parsePath_search_def URLSearchParams_def)
  show ?thesis
    unfolding newUrl_eq Let_def
    by (simp add: bare parsePath_search_target URLSearchParams_toString_roundtrip del: append.simps)
qed

lemma param_value_merged:
  "param_value (merged q i) ''query'' = q" "param_value (merged q i) ''iri'' = i"
  "URLSearchParams_get (merged q i) ''query'' = (if q = [] then None else Some q)"
  "URLSearchParams_get (merged q i) ''iri'' = (if i = [] then None else Some i)"
  by (auto simp: merged_def param_value_def URLSearchParams_get_def or_else_def)

lemma updateUrl_location:
  "location_params (updateUrl upd w) =
     merged (case u_query upd of None \<Rightarrow> param_value (location_params w) ''query'' | Some v \<Rightarrow> v)
            (case u_iri upd of None \<Rightarrow> param_value (location_params w) ''iri'' | Some v \<Rightarrow> v)"
  by (simp add: updateUrl_def navigate_def parse_newUrl)


subsection \<open>The enrichment loop is a map\<close>

lemma enrich_loop_acc:
  "enrich_loop env links (result, issued) =
     (result @ map (\<lambda>l. fst (enrich_link env l)) links,
      issued @ concat (map (\<lambda>l. snd (enrich_link env l)) links))"
  by (induction links arbitrary: result issued) auto

lemma enrich_eq_map:
  "fst (enrichSemanticLinksWithNames env links) = map (\<lambda>l. fst (enrich_link env l)) links"
  by (simp add: enrichSemanticLinksWithNames_def enrich_loop_acc)

lemma enrich_requests:
  "snd (enrichSemanticLinksWithNames env links) = concat (map (\<lambda>l. snd (enrich_link env l)) links)"
  by (simp add: enrichSemanticLinksWithNames_def enrich_loop_acc)

lemma truncate_with_name: "SemanticLink.truncate (with_name link n) = link"
  by (simp add: with_name_def SemanticLink.extend_def SemanticLink.truncate_def)

lemma entity_name_with_name: "entity_name (with_name link n) = Some n"
  by (simp add: with_name_def SemanticLink.extend_def)

lemma str_split_not_Nil: "str_split sep s \<noteq> []"
  by (induction s) (auto split: list.splits)

lemma enrich_link_truncate: "SemanticLink.truncate (fst (enrich_link env link)) = link"
  by (simp add: enrich_link_def Let_def truncate_with_name split: Response.splits)

lemma enrich_link_name:
  "entity_name (fst (enrich_link env link)) =
     Some (if entity_type link = ''data_contract_property'' then
             (case str_split (\<lambda>c. c = CHR ''#'') (entity_id link) of
                [] \<Rightarrow> entity_id link
              | contractId # rest \<Rightarrow>
                  if contractId = [] then entity_id link
                  else (case get_Contract env (''/api/data-contracts/'' @ contractId) of
                          Rejected m \<Rightarrow> entity_id link
                        | Resolved d e \<Rightarrow>
                            str_trim (contractTitle d contractId @ ''#'' @
                                      or_else (nth_opt rest 0) [] @ ''.'' @
                                      or_else (nth_opt rest 1) [])))
           else if entity_type link = ''data_contract'' then
             (case get_Contract env (''/api/data-contracts/'' @ entity_id link) of
                Rejected m \<Rightarrow> entity_id link
              | Resolved d e \<Rightarrow> contractTitle d (entity_id link))
           else entity_id link)"
proof (cases "str_split (\<lambda>c. c = CHR ''#'') (entity_id link)")
  case Nil
  then show ?thesis using str_split_not_Nil by blast
next
  case (Cons contractId rest)
  then show ?thesis
    by (auto simp: enrich_link_def Let_def entity_name_with_name nth_opt_def or_else_def
          split: Response.splits)
qed

lemma trim_Sales: "str_trim '' Sales#orders.total'' = ''Sales#orders.total''"
  by code_simp

subsection \<open>Evaluations on the example data\<close>

lemma str_trim_Nil: "str_trim [] = []"
  by (simp add: str_trim_def trimStart.simps trimEndRev.simps)

lemma trim_blank: "str_trim ''  '' = []"
  by code_simp

lemma trim_down: "str_trim ''down'' = ''down''"
  by code_simp

lemma trim_customer: "str_trim ''customer'' = ''customer''"
  by code_simp

lemma env1_search_down:
  "get_PropertyItems env1 (properties_url ''down'' ''50'') = Rejected ''Network Error''"
  by code_simp
lemma env1_search_customer:
  "get_PropertyItems env1 (properties_url ''customer'' ''50'') = Resolved (Some [orderId, customerId]) None"
  by code_simp
lemma env1_search_iri:
  "get_PropertyItems env1 (properties_url (item_value customerId) ''10'') = Resolved (Some [orderId, customerId]) None"
  by code_simp


subsection \<open>The search handler on an empty query\<close>

lemma searchProperties_blank:
  "str_trim (propertySearchQuery w) = [] \<Longrightarrow>
   propertySearchResults (searchProperties env w) = [] \<and>
   isPropertyDropdownOpen (searchProperties env w) = False \<and>
   URLSearchParams_get (location_params (searchProperties env w)) ''query'' = None \<and>
   param_value (location_params (searchProperties env w)) ''iri'' = param_value (location_params w) ''iri'' \<and>
   requests (searchProperties env w) = requests w"
  by (simp add: searchProperties_def updateUrl_location param_value_merged)
     (simp add: updateUrl_def navigate_def)

subsection \<open>What selectProperty writes\<close>

lemma pop_split: "pop (str_split sep s) = Some (last (str_split sep s))"
  by (simp add: pop_def str_split_not_Nil)

lemma displayLabel_eq:
  "displayLabel p =
     (if item_label p \<noteq> [] \<and> str_trim (item_label p) \<noteq> item_value p then item_label p
      else if CHR ''#'' \<in> set (item_value p) then last (str_split (\<lambda>c. c = CHR ''#'') (item_value p))
      else if last (str_split (\<lambda>c. c = CHR ''/'') (item_value p)) = [] then item_value p
      else last (str_split (\<lambda>c. c = CHR ''/'') (item_value p)))"
  by (simp add: displayLabel_def pop_split str_includes_def or_else_def)

lemma selectProperty_begin_eq:
  "selectProperty_begin p w =
     w\<lparr>selectedProperty := Some p, propertyIri := item_value p, propertyLabel := displayLabel p,
       propertySearchQuery := displayLabel p @ '' - '' @ item_value p,
       isPropertyDropdownOpen := False,
       location_params := merged (param_value (location_params w) ''query'') (item_value p),
       navigations := navigations w @ [newUrl (location_params w) \<lparr>u_query = None, u_iri = Some (item_value p)\<rparr>],
       requests := requests w @ [GET (neighbors_url p)]\<rparr>"
  by (simp add: selectProperty_begin_def updateUrl_def navigate_def issue_def parse_newUrl)

lemma selectProperty_neighbors_eq:
  "selectProperty_neighbors env p w =
     w\<lparr>propertyNeighbors := (case get_Neighbors env (neighbors_url p) of
                               Rejected m \<Rightarrow> [] | Resolved d e \<Rightarrow> data_or_empty d),
       requests := requests w @ [GET (links_url p)]\<rparr>"
  by (simp add: selectProperty_neighbors_def issue_def split: Response.splits)

lemma selectProperty_links_eq:
  "selectProperty_links env p w =
     w\<lparr>semanticLinks := (case get_SemanticLinks env (links_url p) of
                           Rejected m \<Rightarrow> []
                         | Resolved d e \<Rightarrow> fst (enrichSemanticLinksWithNames env (data_or_empty d))),
       requests := requests w @ (case get_SemanticLinks env (links_url p) of
                           Rejected m \<Rightarrow> []
                         | Resolved d e \<Rightarrow> snd (enrichSemanticLinksWithNames env (data_or_empty d)))\<rparr>"
  by (simp add: selectProperty_links_def Let_def split: Response.splits)

lemma selectProperty_eq:
  "selectProperty env p w =
     w\<lparr>selectedProperty := Some p, propertyIri := item_value p, propertyLabel := displayLabel p,
       propertySearchQuery := displayLabel p @ '' - '' @ item_value p,
       isPropertyDropdownOpen := False,
       propertyNeighbors := (case get_Neighbors env (neighbors_url p) of
                               Rejected m \<Rightarrow> [] | Resolved d e \<Rightarrow> data_or_empty d),
       semanticLinks := (case get_SemanticLinks env (links_url p) of
                           Rejected m \<Rightarrow> []
                         | Resolved d e \<Rightarrow> fst (enrichSemanticLinksWithNames env (data_or_empty d))),
       location_params := merged (param_value (location_params w) ''query'') (item_value p),
       navigations := navigations w @ [newUrl (location_params w) \<lparr>u_query = None, u_iri = Some (item_value p)\<rparr>],
       requests := requests w @ [GET (neighbors_url p), GET (links_url p)] @
                     (case get_SemanticLinks env (links_url p) of
                           Rejected m \<Rightarrow> []
                         | Resolved d e \<Rightarrow> snd (enrichSemanticLinksWithNames env (data_or_empty d)))\<rparr>"
  by (simp add: selectProperty_def selectProperty_begin_eq selectProperty_neighbors_eq selectProperty_links_eq)

lemma label_orderId: "displayLabel orderId = ''orderId''"
  by code_simp
lemma label_customerId: "displayLabel customerId = ''CustomerId''"
  by code_simp
lemma label_slash: "displayLabel \<lparr>item_value = ''https://ex.org/onto/'', item_label = [], item_type = Property\<rparr> = ''https://ex.org/onto/''"
  by code_simp
lemma last_slash: "last (str_split (\<lambda>c. c = CHR ''/'') ''https://ex.org/onto/'') = []" 
   "last (str_split (\<lambda>c. c = CHR ''/'' \<or> c = CHR ''#'') ''https://ex.org/onto/'') = []"
  by code_simp+


subsection \<open>Loading a property from the location\<close>

lemma find_value: "find (\<lambda>p. item_value p = i) xs = Some m \<Longrightarrow> item_value m = i"
  by (induction xs) (auto split: if_splits)

lemma loadPropertyFromIri_selected:
  "selectedProperty (loadPropertyFromIri env i w) =
     (case get_PropertyItems env (properties_url i ''10'') of
        Rejected m \<Rightarrow> selectedProperty w
      | Resolved d e \<Rightarrow>
          Some (case find (\<lambda>p. item_value p = i) (data_or_empty d) of
                  Some match \<Rightarrow> match
                | None \<Rightarrow>
                    \<lparr>item_value = i,
                     item_label = (if last (str_split (\<lambda>c. c = CHR ''/'' \<or> c = CHR ''#'') i) = [] then i
                                   else last (str_split (\<lambda>c. c = CHR ''/'' \<or> c = CHR ''#'') i)),
                     item_type = Property\<rparr>))"
  by (simp add: loadPropertyFromIri_def Let_def selectProperty_eq issue_def pop_split or_else_def
        split: Response.splits option.splits)

lemma locationEffect_selected:
  "selectedProperty (locationEffect env iq w) =
     (if param_value (location_params w) ''iri'' = [] then selectedProperty w
      else selectedProperty (loadPropertyFromIri env (param_value (location_params w) ''iri'') w))"
  by (simp add: locationEffect_def Let_def param_value_def loadPropertyFromIri_selected
        split: Response.splits)

lemma env1_search_open: "get_PropertyItems env1 (properties_url ''https://ex.org/onto#'' ''10'') = Resolved (Some []) None"
  "get_PropertyItems env1 (properties_url ''down'' ''10'') = Rejected ''Network Error''"
  by code_simp+

lemma last_hash: "last (str_split (\<lambda>c. c = CHR ''/'' \<or> c = CHR ''#'') ''https://ex.org/onto#'') = []"
  by code_simp


subsection \<open>Calls of selectProperty, one after the other\<close>





subsection \<open>The submit of the assignment dialog\<close>






section \<open>The statements of the specification\<close>



text \<open>
  C2, as the source has it.  For every list of links \<open>enrichSemanticLinksWithNames\<close> returns
  the same links in the same order, each with an \<open>entity_name\<close>.  For a
  \<open>data_contract_property\<close> the identifier is split at \<open>#\<close>; when the contract id is not
  empty the contract is fetched and the name is \<open><title>#<schema>.<property>\<close> with the
  white space at its ends trimmed (schema and property empty if absent), and it is the
  identifier when the fetch fails; when the contract id is empty nothing is fetched and the
  name is the identifier.  For a \<open>data_contract\<close> the name is the title of the fetched
  contract, or the identifier when the fetch fails.  Every other type keeps the identifier.
  The title is \<open>name || info.title || id\<close>.  In particular \<open>c1#orders#total\<close> gets the
  trimmed \<open><title of c1>#orders.total\<close>, and \<open>c1#orders#total\<close> when the fetch fails.
\<close>

theorem enrich_names_per_type:
  "map SemanticLink.truncate (fst (enrichSemanticLinksWithNames env links)) = links \<and>
   map entity_name (fst (enrichSemanticLinksWithNames env links)) =
     map (\<lambda>link.
        Some (if entity_type link = ''data_contract_property'' then
             (case str_split (\<lambda>c. c = CHR ''#'') (entity_id link) of
                [] \<Rightarrow> entity_id link
              | contractId # rest \<Rightarrow>
                  if contractId = [] then entity_id link
                  else (case get_Contract env (''/api/data-contracts/'' @ contractId) of
                          Rejected m \<Rightarrow> entity_id link
                        | Resolved d e \<Rightarrow>
                            str_trim (contractTitle d contractId @ ''#'' @
                                      or_else (nth_opt rest 0) [] @ ''.'' @
                                      or_else (nth_opt rest 1) [])))
           else if entity_type link = ''data_contract'' then
             (case get_Contract env (''/api/data-contracts/'' @ entity_id link) of
                Rejected m \<Rightarrow> entity_id link
              | Resolved d e \<Rightarrow> contractTitle d (entity_id link))
           else entity_id link)) links \<and>
   map entity_name
     (fst (enrichSemanticLinksWithNames env
        [\<lparr>link_id = i, entity_id = ''c1#orders#total'', entity_type = ''data_contract_property'',
          iri = r\<rparr>])) =
     [Some (case get_Contract env ''/api/data-contracts/c1'' of
              Rejected m \<Rightarrow> ''c1#orders#total''
            | Resolved d e \<Rightarrow> str_trim (contractTitle d ''c1'' @ ''#orders.total''))]"
proof -
  have a: "map SemanticLink.truncate (fst (enrichSemanticLinksWithNames env links)) = links"
    by (simp add: enrich_eq_map o_def enrich_link_truncate)
  have b: "map entity_name (fst (enrichSemanticLinksWithNames env links)) = map (\<lambda>l. entity_name (fst (enrich_link env l))) links"
    by (simp add: enrich_eq_map o_def)
  have c: "str_split (\<lambda>c. c = CHR ''#'') ''c1#orders#total'' = [''c1'', ''orders'', ''total'']"
    by simp
  have d: "map entity_name
     (fst (enrichSemanticLinksWithNames env
        [\<lparr>link_id = i, entity_id = ''c1#orders#total'', entity_type = ''data_contract_property'',
          iri = r\<rparr>])) =
     [Some (case get_Contract env ''/api/data-contracts/c1'' of
              Rejected m \<Rightarrow> ''c1#orders#total''
            | Resolved d e \<Rightarrow> str_trim (contractTitle d ''c1'' @ ''#orders.total''))]"
    unfolding enrich_eq_map list.map enrich_link_name SemanticLink.simps c
    by (simp add: nth_opt_def or_else_def split: Response.splits)
  show ?thesis
    using a b d by (simp only: enrich_link_name)
qed

theorem enrich_names_per_type_witness:
  "map entity_name (fst (enrichSemanticLinksWithNames env1
      [link_of ''1'' ''c1#orders#total'' ''data_contract_property'',
       link_of ''2'' ''c2#orders#total'' ''data_contract_property'',
       link_of ''3'' ''c1'' ''data_contract'',
       link_of ''4'' ''main.sales.orders.total'' ''uc_column'']))
   = [Some ''Sales#orders.total'', Some ''c2#orders#total'', Some '' Sales'', Some ''main.sales.orders.total'']"
  using enrich_names_per_type [where env = env1 and links = "[link_of ''1'' ''c1#orders#total'' ''data_contract_property'',
       link_of ''2'' ''c2#orders#total'' ''data_contract_property'',
       link_of ''3'' ''c1'' ''data_contract'',
       link_of ''4'' ''main.sales.orders.total'' ''uc_column'']"]
  by (simp add: link_of_def env1_def contractTitle_def or_else_def nth_opt_def trim_Sales)

text \<open>
  C2 as it is stated fails in two places.  The identifier \<open>#orders#total\<close> has an empty
  contract id: no contract is fetched and the name is the identifier, where the claim
  has the fetched title before \<open>#orders.total\<close>.  And the title \<open>" Sales"\<close> loses its
  leading space in the name.
\<close>

theorem enrich_names_per_type_counterexample:
  "map entity_name (fst (enrichSemanticLinksWithNames env1
      [link_of ''2'' ''#orders#total'' ''data_contract_property''])) = [Some ''#orders#total''] \<and>
   snd (enrichSemanticLinksWithNames env1
      [link_of ''2'' ''#orders#total'' ''data_contract_property'']) = [] \<and>
   spec_entity_name env1 (link_of ''2'' ''#orders#total'' ''data_contract_property'')
     = ''All#orders.total'' \<and>
   map entity_name (fst (enrichSemanticLinksWithNames env1
      [link_of ''2'' ''#orders#total'' ''data_contract_property'']))
     \<noteq> [Some (spec_entity_name env1 (link_of ''2'' ''#orders#total'' ''data_contract_property''))] \<and>
   map entity_name (fst (enrichSemanticLinksWithNames env1
      [link_of ''1'' ''c1#orders#total'' ''data_contract_property''])) = [Some ''Sales#orders.total''] \<and>
   spec_entity_name env1 (link_of ''1'' ''c1#orders#total'' ''data_contract_property'')
     = '' Sales#orders.total'' \<and>
   map entity_name (fst (enrichSemanticLinksWithNames env1
      [link_of ''1'' ''c1#orders#total'' ''data_contract_property'']))
     \<noteq> [Some (spec_entity_name env1 (link_of ''1'' ''c1#orders#total'' ''data_contract_property''))]"
  by (simp add: enrich_eq_map enrich_requests enrich_link_def spec_entity_name_def Let_def
        link_of_def env1_def contractTitle_def or_else_def nth_opt_def trim_Sales
        entity_name_with_name)

text \<open>
  C5.  For every search text that is empty or white space only, the debounced search
  handler empties the result list, closes the dropdown, removes the \<open>query\<close> parameter
  from the URL (the \<open>iri\<close> parameter keeps its value) and issues no request.
\<close>

theorem search_blank_clears:
  "str_trim (propertySearchQuery w) = [] \<Longrightarrow>
   propertySearchResults (searchProperties env w) = [] \<and>
   isPropertyDropdownOpen (searchProperties env w) = False \<and>
   URLSearchParams_get (location_params (searchProperties env w)) ''query'' = None \<and>
   param_value (location_params (searchProperties env w)) ''iri'' = param_value (location_params w) ''iri'' \<and>
   requests (searchProperties env w) = requests w"
  by (rule searchProperties_blank)

theorem search_blank_clears_witness:
  "propertySearchResults (searchProperties env1
      (world0\<lparr>propertySearchQuery := ''  '', propertySearchResults := [customerId],
              isPropertyDropdownOpen := True,
              location_params := [(''query'', ''cust''), (''iri'', ''x'')]\<rparr>)) = [] \<and>
   location_params (searchProperties env1
      (world0\<lparr>propertySearchQuery := ''  '', propertySearchResults := [customerId],
              isPropertyDropdownOpen := True,
              location_params := [(''query'', ''cust''), (''iri'', ''x'')]\<rparr>)) = [(''iri'', ''x'')]"
  using search_blank_clears [where env = env1 and w = "world0\<lparr>propertySearchQuery := ''  '', propertySearchResults := [customerId],
              isPropertyDropdownOpen := True,
              location_params := [(''query'', ''cust''), (''iri'', ''x'')]\<rparr>"]
  by (simp add: trim_blank searchProperties_def updateUrl_location merged_def param_value_def
        URLSearchParams_get_def or_else_def)

text \<open>
  C7.  In the assignment dialog a change upstream resets what lies downstream: a change
  of the target type clears the contract, the schema and the property; the choice of a
  contract clears the schema and the property; the choice of a schema clears the property.
\<close>

theorem cascade_resets_downstream:
  "assignTargetType (handleAssignTargetTypeChange v w) = v \<and>
   selectedContractId (handleAssignTargetTypeChange v w) = [] \<and>
   selectedSchemaName (handleAssignTargetTypeChange v w) = [] \<and>
   selectedPropertyEntityId (handleAssignTargetTypeChange v w) = [] \<and>
   assignTargetType (contract_onValueChange v w) = assignTargetType w \<and>
   selectedContractId (contract_onValueChange v w) = v \<and>
   selectedSchemaName (contract_onValueChange v w) = [] \<and>
   selectedPropertyEntityId (contract_onValueChange v w) = [] \<and>
   assignTargetType (schema_onValueChange v w) = assignTargetType w \<and>
   selectedContractId (schema_onValueChange v w) = selectedContractId w \<and>
   selectedSchemaName (schema_onValueChange v w) = v \<and>
   selectedPropertyEntityId (schema_onValueChange v w) = []"
  by (simp add: handleAssignTargetTypeChange_def contract_onValueChange_def schema_onValueChange_def)


theorem cascade_resets_downstream_witness:
  "selectedContractId (handleAssignTargetTypeChange ''uc_column''
      (world0\<lparr>assignTargetType := ''data_contract_property'', selectedContractId := ''c1'',
              selectedSchemaName := ''orders'', selectedPropertyEntityId := ''c1#orders#total''\<rparr>)) = [] \<and>
   selectedSchemaName (handleAssignTargetTypeChange ''uc_column''
      (world0\<lparr>assignTargetType := ''data_contract_property'', selectedContractId := ''c1'',
              selectedSchemaName := ''orders'', selectedPropertyEntityId := ''c1#orders#total''\<rparr>)) = [] \<and>
   selectedPropertyEntityId (handleAssignTargetTypeChange ''uc_column''
      (world0\<lparr>assignTargetType := ''data_contract_property'', selectedContractId := ''c1'',
              selectedSchemaName := ''orders'', selectedPropertyEntityId := ''c1#orders#total''\<rparr>)) = []"
  using cascade_resets_downstream [where v = "''uc_column''" and
      w = "world0\<lparr>assignTargetType := ''data_contract_property'', selectedContractId := ''c1'',
              selectedSchemaName := ''orders'', selectedPropertyEntityId := ''c1#orders#total''\<rparr>"]
  by simp

text \<open>
  C8, as the source has it.  \<open>clearSearch\<close> always removes both the \<open>query\<close> and the \<open>iri\<close>
  parameter from the URL and leaves the component with an empty search text, no selected
  property, an empty property IRI, no neighbors, no links and a closed dropdown.  It leaves
  the result list as it was; the debounced search handler, run on the text now empty,
  empties it.
\<close>

theorem clearSearch_effects:
  "location_params (clearSearch w) = [] \<and>
   URLSearchParams_get (location_params (clearSearch w)) ''query'' = None \<and>
   URLSearchParams_get (location_params (clearSearch w)) ''iri'' = None \<and>
   navigations (clearSearch w) = navigations w @ [''/search/properties''] \<and>
   propertySearchQuery (clearSearch w) = [] \<and>
   selectedProperty (clearSearch w) = None \<and>
   propertyIri (clearSearch w) = [] \<and>
   propertyNeighbors (clearSearch w) = [] \<and>
   semanticLinks (clearSearch w) = [] \<and>
   isPropertyDropdownOpen (clearSearch w) = False \<and>
   propertySearchResults (clearSearch w) = propertySearchResults w \<and>
   propertySearchResults (searchProperties env (clearSearch w)) = []"
proof -
  have q: "propertySearchQuery (clearSearch w) = []"
    by (simp add: clearSearch_def updateUrl_def navigate_def)
  have l: "location_params (clearSearch w) = []"
    by (simp add: clearSearch_def updateUrl_location merged_def)
  have s: "propertySearchResults (searchProperties env (clearSearch w)) = []"
    using searchProperties_blank [of "clearSearch w" env] q str_trim_Nil by simp
  show ?thesis
    unfolding l using s
    by (simp add: URLSearchParams_get_def)
       (simp add: clearSearch_def updateUrl_def navigate_def newUrl_eq merged_def)
qed


theorem clearSearch_effects_witness:
  "propertySearchResults (searchProperties env1 (clearSearch
      (world0\<lparr>propertySearchQuery := ''customer'',
              propertySearchResults := [orderId, customerId], isPropertyDropdownOpen := True\<rparr>))) = []"
  using clearSearch_effects [where env = env1 and
      w = "world0\<lparr>propertySearchQuery := ''customer'',
              propertySearchResults := [orderId, customerId], isPropertyDropdownOpen := True\<rparr>"]
  by simp

text \<open>
  C8 as it is stated has the result list empty after \<open>clearSearch\<close>: the handler does not
  write it, and two results that were there are still there.
\<close>

theorem clearSearch_effects_counterexample:
  "propertySearchResults (clearSearch (world0\<lparr>propertySearchQuery := ''customer'',
       propertySearchResults := [orderId, customerId], isPropertyDropdownOpen := True\<rparr>))
   = [orderId, customerId] \<and>
   propertySearchResults (clearSearch (world0\<lparr>propertySearchQuery := ''customer'',
       propertySearchResults := [orderId, customerId], isPropertyDropdownOpen := True\<rparr>))
   \<noteq> []"
  by (simp add: clearSearch_def updateUrl_def navigate_def world0_def)

text \<open>
  C10.  For a search text that is not blank: when the request fails, the handler empties
  the result list and closes the dropdown and does not navigate, so the URL keeps the
  parameters it had; when the request returns, the text is written to the \<open>query\<close>
  parameter.
\<close>

theorem search_failure_keeps_url:
  "str_trim (propertySearchQuery w) \<noteq> [] \<Longrightarrow>
   (case get_PropertyItems env (properties_url (propertySearchQuery w) ''50'') of
      Rejected m \<Rightarrow>
        propertySearchResults (searchProperties env w) = [] \<and>
        isPropertyDropdownOpen (searchProperties env w) = False \<and>
        location_params (searchProperties env w) = location_params w \<and>
        navigations (searchProperties env w) = navigations w \<and>
        requests (searchProperties env w) = requests w @ [GET (properties_url (propertySearchQuery w) ''50'')]
    | Resolved d e \<Rightarrow>
        propertySearchResults (searchProperties env w) = data_or_empty d \<and>
        URLSearchParams_get (location_params (searchProperties env w)) ''query'' = Some (propertySearchQuery w) \<and>
        length (navigations (searchProperties env w)) = Suc (length (navigations w)))"
proof -
  assume a: "str_trim (propertySearchQuery w) \<noteq> []"
  then have ne: "propertySearchQuery w \<noteq> []" using str_trim_Nil by auto
  show ?thesis
  proof (cases "get_PropertyItems env (properties_url (propertySearchQuery w) ''50'')")
    case (Rejected m)
    with a show ?thesis by (simp add: searchProperties_def Let_def issue_def)
  next
    case (Resolved d e)
    with a ne show ?thesis
      by (simp add: searchProperties_def Let_def updateUrl_location param_value_merged)
         (simp add: updateUrl_def navigate_def issue_def)
  qed
qed

theorem search_failure_keeps_url_witness:
  "location_params (searchProperties env1
      (world0\<lparr>propertySearchQuery := ''down'', propertySearchResults := [customerId],
              isPropertyDropdownOpen := True, location_params := [(''query'', ''customer'')]\<rparr>))
     = [(''query'', ''customer'')] \<and>
   propertySearchResults (searchProperties env1
      (world0\<lparr>propertySearchQuery := ''down'', propertySearchResults := [customerId],
              isPropertyDropdownOpen := True, location_params := [(''query'', ''customer'')]\<rparr>)) = [] \<and>
   location_params (searchProperties env1 (world0\<lparr>propertySearchQuery := ''customer''\<rparr>))
     = [(''query'', ''customer'')]"
  using search_failure_keeps_url [where env = env1 and w = "world0\<lparr>propertySearchQuery := ''down'', propertySearchResults := [customerId],
              isPropertyDropdownOpen := True, location_params := [(''query'', ''customer'')]\<rparr>"]
        search_failure_keeps_url [where env = env1 and w = "world0\<lparr>propertySearchQuery := ''customer''\<rparr>"]
  by (simp add: trim_down trim_customer env1_search_down env1_search_customer data_or_empty_def)
     (simp add: searchProperties_def trim_down trim_customer Let_def env1_search_down env1_search_customer
        issue_def updateUrl_location merged_def data_or_empty_def world0_def
        param_value_def URLSearchParams_get_def or_else_def)


text \<open>
  C9, as the source has it.  For every property passed to \<open>selectProperty\<close>: the selected
  property and its IRI are set; the display label is the property's label when it is not
  empty and, trimmed, differs from the IRI; otherwise it is the last \<open>#\<close>-delimited segment
  of the IRI when the IRI has a \<open>#\<close>, else its last \<open>/\<close>-delimited segment, and the whole
  IRI when that segment is empty; the search text becomes \<open><label> - <iri>\<close>; the dropdown
  is closed; and the \<open>iri\<close> parameter of the URL is updated to the property's value (the
  \<open>query\<close> parameter keeps its value).
\<close>

theorem selectProperty_effects:
  "selectedProperty (selectProperty env property w) = Some property \<and>
   propertyIri (selectProperty env property w) = item_value property \<and>
   propertyLabel (selectProperty env property w) =
     (if item_label property \<noteq> [] \<and> str_trim (item_label property) \<noteq> item_value property
      then item_label property
      else if CHR ''#'' \<in> set (item_value property)
      then last (str_split (\<lambda>c. c = CHR ''#'') (item_value property))
      else if last (str_split (\<lambda>c. c = CHR ''/'') (item_value property)) = []
      then item_value property
      else last (str_split (\<lambda>c. c = CHR ''/'') (item_value property))) \<and>
   propertySearchQuery (selectProperty env property w) =
     propertyLabel (selectProperty env property w) @ '' - '' @ item_value property \<and>
   isPropertyDropdownOpen (selectProperty env property w) = False \<and>
   param_value (location_params (selectProperty env property w)) ''iri'' = item_value property \<and>
   URLSearchParams_get (location_params (selectProperty env property w)) ''iri'' =
     (if item_value property = [] then None else Some (item_value property)) \<and>
   param_value (location_params (selectProperty env property w)) ''query'' =
     param_value (location_params w) ''query''"
  by (simp add: selectProperty_eq param_value_merged) (simp add: displayLabel_eq)

theorem selectProperty_effects_witness:
  "propertySearchQuery (selectProperty env1 orderId world0) = ''orderId - https://ex.org/onto/orderId'' \<and>
   propertySearchQuery (selectProperty env1 customerId world0) = ''CustomerId - https://ex.org/onto#CustomerId'' \<and>
   location_params (selectProperty env1 customerId world0) = [(''iri'', ''https://ex.org/onto#CustomerId'')]"
  using selectProperty_effects [where env = env1 and property = orderId and w = world0]
   selectProperty_effects [where env = env1 and property = customerId and w = world0]
  by (simp add: displayLabel_eq [symmetric] label_orderId label_customerId)
     (simp add: orderId_def customerId_def selectProperty_eq merged_def param_value_def URLSearchParams_get_def or_else_def world0_def)

text \<open>
  C9 as it is stated has the label fall back to the last segment of the IRI: for an IRI
  that ends in \<open>/\<close> and has no \<open>#\<close> the last segment is empty, and the label is the whole
  IRI.
\<close>

theorem selectProperty_effects_counterexample:
  "propertyLabel (selectProperty env1
      \<lparr>item_value = ''https://ex.org/onto/'', item_label = [], item_type = Property\<rparr> world0)
     = ''https://ex.org/onto/'' \<and>
   last (str_split (\<lambda>c. c = CHR ''/'') ''https://ex.org/onto/'') = [] \<and>
   last (str_split (\<lambda>c. c = CHR ''/'' \<or> c = CHR ''#'') ''https://ex.org/onto/'') = [] \<and>
   propertyLabel (selectProperty env1
      \<lparr>item_value = ''https://ex.org/onto/'', item_label = [], item_type = Property\<rparr> world0)
     \<noteq> last (str_split (\<lambda>c. c = CHR ''/'' \<or> c = CHR ''#'') ''https://ex.org/onto/'')"
  by (simp add: selectProperty_eq label_slash last_slash)

text \<open>
  C3, as the source has it.  Selecting a property writes its value as the \<open>iri\<close> parameter
  of the URL.  Loading a URL whose \<open>iri\<close> parameter is present and not empty asks for the
  first 10 properties found under that IRI: when the request fails nothing is selected;
  when it returns, the selected property has that IRI as its value, and it is the first
  hit with that value when there is one, otherwise a synthetic item with that value whose
  label is the last segment of the IRI after \<open>/\<close> or \<open>#\<close>, or the whole IRI when that
  segment is empty.
\<close>

theorem iri_round_trip:
  assumes "URLSearchParams_get (location_params w') ''iri'' = Some i" and "i \<noteq> []"
  shows "URLSearchParams_get (location_params (selectProperty env p w)) ''iri'' =
           (if item_value p = [] then None else Some (item_value p)) \<and>
         (case get_PropertyItems env (properties_url i ''10'') of
            Rejected m \<Rightarrow> selectedProperty (locationEffect env initialQuery w') = selectedProperty w'
          | Resolved d e \<Rightarrow>
              selectedProperty (locationEffect env initialQuery w') =
                Some (case find (\<lambda>x. item_value x = i) (data_or_empty d) of
                        Some match \<Rightarrow> match
                      | None \<Rightarrow>
                          \<lparr>item_value = i,
                           item_label =
                             (if last (str_split (\<lambda>c. c = CHR ''/'' \<or> c = CHR ''#'') i) = [] then i
                              else last (str_split (\<lambda>c. c = CHR ''/'' \<or> c = CHR ''#'') i)),
                           item_type = Property\<rparr>) \<and>
              map_option item_value (selectedProperty (locationEffect env initialQuery w')) = Some i)"
proof -
  from assms have pv: "param_value (location_params w') ''iri'' = i"
    by (simp add: param_value_def or_else_def)
  have a: "URLSearchParams_get (location_params (selectProperty env p w)) ''iri'' =
           (if item_value p = [] then None else Some (item_value p))"
    by (simp add: selectProperty_eq param_value_merged)
  have sel: "selectedProperty (locationEffect env initialQuery w') =
             selectedProperty (loadPropertyFromIri env i w')"
    using pv assms(2) by (simp only: locationEffect_selected if_False)
  show ?thesis
  proof (cases "get_PropertyItems env (properties_url i ''10'')")
    case (Rejected m)
    then have "selectedProperty (loadPropertyFromIri env i w') = selectedProperty w'"
      by (simp add: loadPropertyFromIri_selected)
    with a sel Rejected show ?thesis by simp
  next
    case (Resolved d e)
    show ?thesis
    proof (cases "find (\<lambda>x. item_value x = i) (data_or_empty d)")
      case None
      with Resolved have "selectedProperty (loadPropertyFromIri env i w') =
          Some \<lparr>item_value = i,
                 item_label =
                   (if last (str_split (\<lambda>c. c = CHR ''/'' \<or> c = CHR ''#'') i) = [] then i
                    else last (str_split (\<lambda>c. c = CHR ''/'' \<or> c = CHR ''#'') i)),
                 item_type = Property\<rparr>"
        by (simp add: loadPropertyFromIri_selected)
      with a sel Resolved None show ?thesis by simp
    next
      case (Some match)
      with Resolved have "selectedProperty (loadPropertyFromIri env i w') = Some match"
        by (simp add: loadPropertyFromIri_selected)
      with a sel Resolved Some find_value [OF Some] show ?thesis by simp
    qed
  qed
qed


theorem iri_round_trip_witness:
  "selectedProperty (locationEffect env1 [] (selectProperty env1 customerId world0)) = Some customerId"
  using iri_round_trip [where env = env1 and p = customerId and w = world0 and w' = "selectProperty env1 customerId world0"
      and i = "item_value customerId" and initialQuery = "[]"]
  apply (simp add: selectProperty_eq param_value_merged env1_search_iri data_or_empty_def)
  apply (simp add: customerId_def orderId_def)
  done

text \<open>
  C3 as it is stated fails in three places: the IRI \<open>https://ex.org/onto#\<close>, found by no
  search, gets the whole IRI as its label, where its last segment is empty; an IRI whose
  search request fails selects nothing; and an \<open>iri\<close> parameter that is present but empty
  selects nothing and asks for nothing.
\<close>

theorem iri_round_trip_counterexample:
  "selectedProperty (locationEffect env1 []
      (world0\<lparr>location_params := [(''iri'', ''https://ex.org/onto#'')]\<rparr>)) =
     Some \<lparr>item_value = ''https://ex.org/onto#'', item_label = ''https://ex.org/onto#'',
           item_type = Property\<rparr> \<and>
   last (str_split (\<lambda>c. c = CHR ''/'' \<or> c = CHR ''#'') ''https://ex.org/onto#'') = [] \<and>
   map_option item_label (selectedProperty (locationEffect env1 []
      (world0\<lparr>location_params := [(''iri'', ''https://ex.org/onto#'')]\<rparr>))) \<noteq>
     Some (last (str_split (\<lambda>c. c = CHR ''/'' \<or> c = CHR ''#'') ''https://ex.org/onto#'')) \<and>
   selectedProperty (locationEffect env1 [] (world0\<lparr>location_params := [(''iri'', ''down'')]\<rparr>))
     = None \<and>
   selectedProperty (locationEffect env1 [] (world0\<lparr>location_params := [(''iri'', [])]\<rparr>))
     = None \<and>
   requests (locationEffect env1 [] (world0\<lparr>location_params := [(''iri'', [])]\<rparr>)) = []"
  apply (simp add: locationEffect_selected loadPropertyFromIri_selected param_value_def
      URLSearchParams_get_def or_else_def env1_search_open last_hash data_or_empty_def)
  apply (simp add: world0_def locationEffect_def Let_def URLSearchParams_get_def or_else_def)
  done








end
